theory Spec2Isabelle
  imports Complex_Main
begin

section \<open>The camera page of \<open>src/index.tsx\<close>\<close>

text \<open>
  The program is one TypeScript module: nine module variables, a dozen DOM elements and
  the event handlers wired to them. The embedding keeps that shape.

  \<^item> The module variables and the DOM properties the handlers read or write are the
    fields of one record, \<open>app\<close>; a handler is a function from \<open>app\<close> to \<open>app\<close>.
  \<^item> JavaScript numbers are kept abstract: the type variable \<open>'n\<close> only has to offer the
    operations the source applies (\<open>/\<close>, \<open>-\<close>, the literals \<open>0\<close>, \<open>1\<close>, \<open>2\<close>). No
    arithmetic law is assumed of them, so what is proved holds for IEEE doubles with their
    \<open>NaN\<close> and infinities as well as for the reals used in the worked examples.
  \<^item> What the platform answers (the result of \<open>getUserMedia\<close>, of \<open>video.play()\<close>, of
    \<open>enumerateDevices\<close>, of the \<open>MediaRecorder\<close> constructor, of \<open>toDataURL\<close>, the clock)
    is an argument of the handler that asks for it. Conversions the platform applies
    (\<open>parseFloat\<close>, \<open>toFixed\<close>, the conversion of a number to a canvas dimension,
    \<open>URL.createObjectURL\<close>) and the page URL are the fields of \<open>platform\<close>.
  \<^item> An \<open>async\<close> function is split at its first \<open>await\<close>: the part that runs before the
    request is issued, and the part that runs with the platform's answer. An event of
    \<open>step\<close> runs the two parts one after the other; where it matters that other handlers
    run while a request is pending, the two parts are used on their own.
  \<^item> A platform call that the source does not wrap in \<open>try\<close> returns normally, and the
    elements the source looks up with \<open>!\<close> exist. The page's markup is not part of the
    source: what it sets (the initial \<open>hidden\<close> and \<open>disabled\<close> flags, the range of the
    slider) is left open, as the initial value of the field.
  \<^item> The user-visible texts of the source are Japanese; they are named by the constructors
    of \<open>message\<close>, \<open>button_text\<close> and \<open>aria_label\<close>.
\<close>

subsection \<open>Platform values\<close>

type_synonym byte = char

record blob =
  blob_bytes :: "byte list"
  blob_type :: string

definition blob_size :: "blob \<Rightarrow> nat" where
  "blob_size b = length (blob_bytes b)"

text \<open>\<open>new Blob(parts, {type})\<close>: the parts' bytes in order.\<close>

definition new_Blob :: "blob list \<Rightarrow> string \<Rightarrow> blob" where
  "new_Blob parts ty = \<lparr>blob_bytes = concat (map blob_bytes parts), blob_type = ty\<rparr>"

datatype device_kind = VideoInput | AudioInput | AudioOutput

record mediaDeviceInfo =
  kind :: device_kind
  deviceId :: string
  label :: string

text \<open>
  A stream as \<open>getUserMedia\<close> returns it for a request with \<open>video\<close> and \<open>audio\<close>: it has a
  first video track, whose \<open>getSettings().deviceId\<close> may be undefined, and audio tracks.
\<close>

record mediaStream =
  stream_id :: nat
  videoTrack_deviceId :: "string option"
  audioTracks :: "nat list"

text \<open>A value caught by \<open>catch\<close>: an \<open>Error\<close> object with its message, or anything else.\<close>

datatype thrown = ErrorObject string | OtherValue

datatype recorder_state = Inactive | Encoding

text \<open>The events a recorder fires at its handlers.\<close>

datatype recorder_event = DataAvailableEvent | StopEvent

record recorder =
  rec_audio :: "nat list"
  rec_mimeType :: string
  rec_state :: recorder_state

datatype media_kind = Photo | Video

text \<open>
  The texts shown by \<open>showError\<close>. \<open>NoCameraFound\<close>: no camera is available.
  \<open>EnumerateFailed\<close>: listing the devices failed. \<open>CameraAccessFailed\<close>: camera or
  microphone could not be accessed. \<open>CannotStartRecording\<close>: no camera stream or no
  drawing context. \<open>FormatNotSupported\<close>: the browser does not record this format. The
  second and third carry the \<open>Error: ...\<close> line appended when the caught value is an \<open>Error\<close>.
\<close>

datatype message =
    NoCameraFound
  | EnumerateFailed "string option"
  | CameraAccessFailed "string option"
  | CannotStartRecording
  | FormatNotSupported string

datatype console_entry = Shown message | RecorderException thrown

datatype button_text = RecordText | StopText | SavePhotoText | SaveVideoText

datatype aria_label = StartRecordingLabel | StopRecordingLabel

datatype option_text = Label string | CameraNumber nat

record 'n drawImage_call =
  sx :: 'n
  sy :: 'n
  sw :: 'n
  sh :: 'n
  dx :: 'n
  dy :: 'n
  dw :: 'n
  dh :: 'n

record download =
  href :: string
  file_name :: string

record 'n platform =
  parseFloat :: "string \<Rightarrow> 'n"
  toFixed1 :: "'n \<Rightarrow> string"
  toUnsignedLong :: "'n \<Rightarrow> 'n"
  createObjectURL :: "blob \<Rightarrow> string"
  location_href :: string

record videoConstraints =
  width_ideal :: nat
  height_ideal :: nat
  deviceId_exact :: "string option"
  audio :: bool

record acquire_answer =
  getUserMedia :: "thrown + mediaStream"
  play :: "thrown option"
  enumerateDevices :: "thrown + mediaDeviceInfo list"

subsection \<open>The state: module variables and DOM properties\<close>

record 'n app =
  ctx :: bool
  currentStream :: "mediaStream option"
  currentZoom :: 'n
  hasStartedDrawing :: bool
  mediaRecorder :: "recorder option"
  recordedChunks :: "blob list"
  isRecording :: bool
  mediaType :: "media_kind option"
  videoDevices :: "mediaDeviceInfo list"
  currentDeviceIndex :: nat
  video_srcObject :: "mediaStream option"
  video_paused :: bool
  video_ended :: bool
  videoWidth :: 'n
  videoHeight :: 'n
  canvas_width :: 'n
  canvas_height :: 'n
  photo_src :: string
  photo_hidden :: bool
  recordedVideo_src :: string
  recordedVideo_hidden :: bool
  captureButton_disabled :: bool
  recordButton_disabled :: bool
  recordButton_recording :: bool
  recordButton_text :: button_text
  recordButton_ariaLabel :: "aria_label option"
  switchCameraButton_hidden :: bool
  switchCameraButton_disabled :: bool
  saveButton_hidden :: bool
  saveButton_disabled :: bool
  saveButton_text :: button_text
  zoomSlider_value :: string
  zoomSlider_disabled :: bool
  zoomValueDisplay :: string
  errorMsg_text :: "message option"
  errorMsg_hidden :: bool
  cameraSelect_options :: "(string \<times> option_text) list"
  cameraSelect_value :: string
  cameraSelect_disabled :: bool
  container_hidden :: "bool option"
  console :: "console_entry list"
  stoppedStreams :: "mediaStream list"
  recorderEvents :: "recorder_event list"

text \<open>
  \<open>ctx\<close> says that \<open>canvas.getContext('2d')\<close> returned a context. \<open>container_hidden\<close> is
  \<open>None\<close> when the page has no \<open>.camera-selector-container\<close>. \<open>stoppedStreams\<close> lists the
  streams all of whose tracks were stopped, oldest first. \<open>recorderEvents\<close> lists the
  events that a call of \<open>mediaRecorder.stop()\<close> has made the platform owe the recorder's
  handlers and that were not delivered yet, oldest first. The values the module gives its
  variables when it is loaded:
\<close>

definition initial :: "('n::one) app \<Rightarrow> bool" where
  "initial s \<longleftrightarrow>
     currentStream s = None \<and> currentZoom s = 1 \<and> \<not> hasStartedDrawing s \<and>
     mediaRecorder s = None \<and> recordedChunks s = [] \<and> \<not> isRecording s \<and>
     mediaType s = None \<and> videoDevices s = [] \<and> currentDeviceIndex s = 0 \<and>
     console s = [] \<and> stoppedStreams s = []"

subsection \<open>Errors and stream release\<close>

definition showError :: "message \<Rightarrow> 'n app \<Rightarrow> 'n app" where
  "showError m s =
     s\<lparr>errorMsg_text := Some m, errorMsg_hidden := False, console := console s @ [Shown m]\<rparr>"

definition stopCurrentStream :: "'n app \<Rightarrow> 'n app" where
  "stopCurrentStream s =
     (case currentStream s of
        None \<Rightarrow> s
      | Some st \<Rightarrow> s\<lparr>stoppedStreams := stoppedStreams s @ [st], currentStream := None\<rparr>)"

text \<open>The \<open>Error: ...\<close> line of a caught value: only an \<open>Error\<close> object has one.\<close>

fun error_line :: "thrown \<Rightarrow> string option" where
  "error_line (ErrorObject m) = Some m"
| "error_line OtherValue = None"

subsection \<open>The camera list\<close>

text \<open>
  Assigning \<open>select.value\<close> selects the option with that value; when there is none, no
  option is selected and the value reads as the empty string. Emptying the dropdown
  leaves it without a value, and the first option appended to it becomes the selected one.
\<close>

definition select_value :: "(string \<times> option_text) list \<Rightarrow> string \<Rightarrow> string" where
  "select_value opts v = (if v \<in> set (map fst opts) then v else [])"

fun option_entries :: "nat \<Rightarrow> mediaDeviceInfo list \<Rightarrow> (string \<times> option_text) list" where
  "option_entries i [] = []"
| "option_entries i (d # ds) =
     (deviceId d, if label d \<noteq> [] then Label (label d) else CameraNumber (i + 1))
       # option_entries (i + 1) ds"

fun findIndex :: "('a \<Rightarrow> bool) \<Rightarrow> 'a list \<Rightarrow> nat option" where
  "findIndex p [] = None"
| "findIndex p (x # xs) =
     (if p x then Some 0 else map_option Suc (findIndex p xs))"

definition populateCameraList ::
  "(thrown + mediaDeviceInfo list) \<Rightarrow> 'n app \<Rightarrow> 'n app" where
  "populateCameraList answer s =
     (case answer of
        Inl e \<Rightarrow> showError (EnumerateFailed (error_line e)) s
      | Inr devices \<Rightarrow>
          let vds = filter (\<lambda>d. kind d = VideoInput) devices;
              s1 = s\<lparr>videoDevices := vds, cameraSelect_options := [],
                     cameraSelect_value := []\<rparr>
          in if vds = [] then
               showError NoCameraFound
                 (s1\<lparr>switchCameraButton_hidden := True,
                     container_hidden := map_option (\<lambda>_. True) (container_hidden s1)\<rparr>)
             else
               s1\<lparr>cameraSelect_options := option_entries 0 vds,
                  cameraSelect_value := deviceId (hd vds),
                  switchCameraButton_hidden := (length vds \<le> 1),
                  container_hidden :=
                    map_option (\<lambda>_. length vds \<le> 1) (container_hidden s1)\<rparr>)"

subsection \<open>Acquiring a stream\<close>

text \<open>
  \<open>initCamera\<close> up to \<open>await navigator.mediaDevices.getUserMedia(constraints)\<close>: the state
  in which the request is issued, and the request.
\<close>

definition initCamera_request :: "string option \<Rightarrow> 'n app \<Rightarrow> 'n app \<times> videoConstraints" where
  "initCamera_request dev s =
     (let s1 = stopCurrentStream s;
          exact =
            (case dev of
               Some d \<Rightarrow>
                 if d \<noteq> [] then Some d
                 else if videoDevices s1 \<noteq> [] then Some (deviceId (hd (videoDevices s1)))
                 else None
             | None \<Rightarrow>
                 if videoDevices s1 \<noteq> [] then Some (deviceId (hd (videoDevices s1)))
                 else None)
      in (s1, \<lparr>width_ideal = 1280, height_ideal = 720, deviceId_exact = exact,
               audio = True\<rparr>))"

text \<open>The rest of \<open>initCamera\<close>, run with the platform's answers.\<close>

definition initCamera_resume :: "acquire_answer \<Rightarrow> 'n app \<Rightarrow> 'n app" where
  "initCamera_resume a s =
     (case getUserMedia a of
        Inl e \<Rightarrow> showError (CameraAccessFailed (error_line e)) s
      | Inr st \<Rightarrow>
          let s1 = s\<lparr>currentStream := Some st, video_srcObject := Some st\<rparr>
          in case play a of
               Some e \<Rightarrow> showError (CameraAccessFailed (error_line e)) s1
             | None \<Rightarrow>
                 let s2 =
                       (if videoDevices s1 \<noteq> [] \<and> label (hd (videoDevices s1)) = []
                        then populateCameraList (enumerateDevices a) s1 else s1)
                 in case videoTrack_deviceId st of
                      None \<Rightarrow> s2
                    | Some d \<Rightarrow>
                        if d = [] then s2
                        else
                          (case findIndex (\<lambda>v. deviceId v = d) (videoDevices s2) of
                             None \<Rightarrow> s2
                           | Some idx \<Rightarrow>
                               s2\<lparr>currentDeviceIndex := idx,
                                  cameraSelect_value :=
                                    select_value (cameraSelect_options s2) d\<rparr>))"

definition initCamera :: "string option \<Rightarrow> acquire_answer \<Rightarrow> 'n app \<Rightarrow> 'n app" where
  "initCamera dev a s = initCamera_resume a (fst (initCamera_request dev s))"

subsection \<open>Preview and still capture\<close>

text \<open>
  \<open>drawFrame\<close> changes no variable; what it does is the \<open>drawImage\<close> call it makes, if any
  (in either case it reschedules itself).
\<close>

definition drawFrame :: "('n::{zero,numeral,minus,inverse}) app \<Rightarrow> 'n drawImage_call option" where
  "drawFrame s =
     (if \<not> ctx s \<or> video_paused s \<or> video_ended s then None
      else
        let sourceWidth = videoWidth s / currentZoom s;
            sourceHeight = videoHeight s / currentZoom s;
            sourceX = (videoWidth s - sourceWidth) / 2;
            sourceY = (videoHeight s - sourceHeight) / 2
        in Some \<lparr>sx = sourceX, sy = sourceY, sw = sourceWidth, sh = sourceHeight,
                 dx = 0, dy = 0, dw = canvas_width s, dh = canvas_height s\<rparr>)"

text \<open>
  \<open>takePicture\<close>: \<open>tempCtx\<close> says whether the temporary canvas gave a context, \<open>data\<close> is
  what \<open>toDataURL\<close> returns. The result is the new state and the \<open>drawImage\<close> call made.
\<close>

definition takePicture ::
  "('n::{zero,numeral,minus,inverse}) platform \<Rightarrow> bool \<Rightarrow> string \<Rightarrow> 'n app
     \<Rightarrow> 'n app \<times> 'n drawImage_call option" where
  "takePicture P tempCtx data s =
     (if \<not> ctx s then (s, None)
      else
        let sourceWidth = videoWidth s / currentZoom s;
            sourceHeight = videoHeight s / currentZoom s;
            tempCanvas_width = toUnsignedLong P sourceWidth;
            tempCanvas_height = toUnsignedLong P sourceHeight
        in if tempCtx then
             let sourceX = (videoWidth s - sourceWidth) / 2;
                 sourceY = (videoHeight s - sourceHeight) / 2
             in (s\<lparr>photo_src := data, photo_hidden := False,
                    recordedVideo_hidden := True, saveButton_hidden := False,
                    saveButton_text := SavePhotoText, mediaType := Some Photo\<rparr>,
                 Some \<lparr>sx = sourceX, sy = sourceY, sw = sourceWidth, sh = sourceHeight,
                       dx = 0, dy = 0, dw = tempCanvas_width, dh = tempCanvas_height\<rparr>)
           else (s, None))"

definition source_rect :: "'n drawImage_call \<Rightarrow> 'n \<times> 'n \<times> 'n \<times> 'n" where
  "source_rect c = (sx c, sy c, sw c, sh c)"

text \<open>
  The crop rectangle in the specification's words, for comparison with the two call sites:
  the source width and height are the frame's divided by the zoom factor, and the source
  position is the centred offset. The result is \<open>(x, y, width, height)\<close>.
\<close>

definition computeCrop_spec ::
  "('n::{numeral,minus,inverse}) \<Rightarrow> 'n \<Rightarrow> 'n \<Rightarrow> 'n \<times> 'n \<times> 'n \<times> 'n" where
  "computeCrop_spec frameW frameH zoom =
     (let sourceW = frameW / zoom; sourceH = frameH / zoom
      in ((frameW - sourceW) / 2, (frameH - sourceH) / 2, sourceW, sourceH))"

subsection \<open>Recording\<close>

definition updateRecordingUI :: "'n app \<Rightarrow> 'n app" where
  "updateRecordingUI s =
     (if isRecording s then
        s\<lparr>recordButton_recording := True, recordButton_text := StopText,
           recordButton_ariaLabel := Some StopRecordingLabel,
           captureButton_disabled := True, switchCameraButton_disabled := True,
           cameraSelect_disabled := True, zoomSlider_disabled := False\<rparr>
      else
        s\<lparr>recordButton_recording := False, recordButton_text := RecordText,
           recordButton_ariaLabel := Some StartRecordingLabel,
           captureButton_disabled := False,
           switchCameraButton_disabled := (length (videoDevices s) \<le> 1),
           cameraSelect_disabled := (length (videoDevices s) \<le> 1),
           zoomSlider_disabled := False\<rparr>)"

definition recording_mimeType :: string where
  "recording_mimeType = ''video/webm; codecs=vp9,opus''"

text \<open>
  \<open>startRecording\<close>: \<open>rejected\<close> is what \<open>new MediaRecorder(...)\<close> throws, if it throws.
\<close>

definition startRecording :: "thrown option \<Rightarrow> 'n app \<Rightarrow> 'n app" where
  "startRecording rejected s =
     (case currentStream s of
        None \<Rightarrow> showError CannotStartRecording s
      | Some st \<Rightarrow>
          if \<not> ctx s then showError CannotStartRecording s
          else
            let s1 = s\<lparr>recordedChunks := []\<rparr>
            in case rejected of
                 Some e \<Rightarrow>
                   showError (FormatNotSupported recording_mimeType)
                     (s1\<lparr>console := console s1 @ [RecorderException e]\<rparr>)
               | None \<Rightarrow>
                   updateRecordingUI
                     (s1\<lparr>mediaRecorder :=
                           Some \<lparr>rec_audio = audioTracks st,
                                 rec_mimeType = recording_mimeType,
                                 rec_state = Encoding\<rparr>,
                         isRecording := True\<rparr>))"

text \<open>
  \<open>mediaRecorder.stop()\<close> on the recorder \<open>r\<close>: a recorder that is encoding becomes
  inactive and the platform queues the task that fires \<open>dataavailable\<close> with the data
  gathered so far and then \<open>stop\<close>; on an inactive recorder the call does nothing.
\<close>

definition MediaRecorder_stop :: "recorder \<Rightarrow> 'n app \<Rightarrow> 'n app" where
  "MediaRecorder_stop r s =
     (if rec_state r = Inactive then s
      else s\<lparr>mediaRecorder := Some (r\<lparr>rec_state := Inactive\<rparr>),
             recorderEvents := recorderEvents s @ [DataAvailableEvent, StopEvent]\<rparr>)"

definition stopRecording :: "'n app \<Rightarrow> 'n app" where
  "stopRecording s =
     (case mediaRecorder s of
        None \<Rightarrow> s
      | Some r \<Rightarrow> updateRecordingUI ((MediaRecorder_stop r s)\<lparr>isRecording := False\<rparr>))"

definition toggleRecording :: "thrown option \<Rightarrow> 'n app \<Rightarrow> 'n app" where
  "toggleRecording rejected s =
     (if \<not> isRecording s then startRecording rejected s else stopRecording s)"

text \<open>The two handlers \<open>startRecording\<close> installs on the recorder.\<close>

definition ondataavailable :: "blob \<Rightarrow> 'n app \<Rightarrow> 'n app" where
  "ondataavailable d s =
     (if blob_size d > 0 then s\<lparr>recordedChunks := recordedChunks s @ [d]\<rparr> else s)"

definition onstop :: "'n platform \<Rightarrow> 'n app \<Rightarrow> 'n app" where
  "onstop P s =
     (let videoBlob = new_Blob (recordedChunks s) ''video/mp4'';
          videoUrl = createObjectURL P videoBlob
      in s\<lparr>recordedVideo_src := videoUrl, recordedVideo_hidden := False,
            photo_hidden := True, saveButton_hidden := False,
            saveButton_text := SaveVideoText, mediaType := Some Video\<rparr>)"

subsection \<open>Saving\<close>

text \<open>\<open>new Date().toISOString().replace(/[:.]/g, '-')\<close>, for the clock's reading \<open>now\<close>:\<close>

definition timestamp :: "string \<Rightarrow> string" where
  "timestamp now =
     map (\<lambda>c. if c = CHR '':'' \<or> c = CHR ''.'' then CHR ''-'' else c) now"

text \<open>
  \<open>saveMedia\<close>: \<open>now\<close> is \<open>new Date().toISOString()\<close>. The link is added to the page,
  clicked and removed again, so the state is as before; the result is the download the
  click offers, if the function gets that far.
\<close>

definition saveMedia :: "'n platform \<Rightarrow> string \<Rightarrow> 'n app \<Rightarrow> download option" where
  "saveMedia P now s =
     (if mediaType s = Some Photo \<and> photo_src s \<noteq> [] \<and> photo_src s \<noteq> location_href P then
        Some \<lparr>href = photo_src s, file_name = ''photo-'' @ timestamp now @ ''.jpg''\<rparr>
      else if mediaType s = Some Video \<and> recordedVideo_src s \<noteq> [] then
        Some \<lparr>href = recordedVideo_src s, file_name = ''video-'' @ timestamp now @ ''.mp4''\<rparr>
      else None)"

subsection \<open>Zoom and camera switching\<close>

text \<open>The \<open>input\<close> event's target is the slider, so \<open>target.value\<close> is its value.\<close>

definition handleZoomChange :: "'n platform \<Rightarrow> 'n app \<Rightarrow> 'n app" where
  "handleZoomChange P s =
     (let z = parseFloat P (zoomSlider_value s)
      in s\<lparr>currentZoom := z, zoomValueDisplay := toFixed1 P z\<rparr>)"

text \<open>
  \<open>switchCamera\<close> and \<open>handleCameraSelectChange\<close> up to the \<open>await\<close> inside \<open>initCamera\<close>:
  \<open>None\<close> when no request is made.
\<close>

definition switchCamera_request ::
  "('n::one) platform \<Rightarrow> 'n app \<Rightarrow> ('n app \<times> videoConstraints) option" where
  "switchCamera_request P s =
     (if length (videoDevices s) > 1 then
        let i = (currentDeviceIndex s + 1) mod length (videoDevices s);
            device = videoDevices s ! i;
            s1 = s\<lparr>currentDeviceIndex := i,
                   cameraSelect_value := select_value (cameraSelect_options s) (deviceId device),
                   zoomSlider_value := ''1'', currentZoom := 1,
                   zoomValueDisplay := toFixed1 P 1\<rparr>
        in Some (initCamera_request (Some (deviceId device)) s1)
      else None)"

definition switchCamera :: "('n::one) platform \<Rightarrow> acquire_answer \<Rightarrow> 'n app \<Rightarrow> 'n app" where
  "switchCamera P a s =
     (case switchCamera_request P s of
        None \<Rightarrow> s
      | Some (s1, c) \<Rightarrow> initCamera_resume a s1)"

definition handleCameraSelectChange_request ::
  "('n::one) platform \<Rightarrow> 'n app \<Rightarrow> 'n app \<times> videoConstraints" where
  "handleCameraSelectChange_request P s =
     (let dev = cameraSelect_value s;
          s1 = s\<lparr>zoomSlider_value := ''1'', currentZoom := 1,
                 zoomValueDisplay := toFixed1 P 1\<rparr>
      in initCamera_request (Some dev) s1)"

definition handleCameraSelectChange ::
  "('n::one) platform \<Rightarrow> acquire_answer \<Rightarrow> 'n app \<Rightarrow> 'n app" where
  "handleCameraSelectChange P a s =
     initCamera_resume a (fst (handleCameraSelectChange_request P s))"

definition startApp ::
  "(thrown + mediaDeviceInfo list) \<Rightarrow> acquire_answer \<Rightarrow> 'n app \<Rightarrow> 'n app" where
  "startApp devices a s = initCamera None a (populateCameraList devices s)"

text \<open>The \<open>playing\<close> listener of the video element.\<close>

definition on_playing :: "('n::{numeral,inverse}) platform \<Rightarrow> 'n app \<Rightarrow> 'n app" where
  "on_playing P s =
     s\<lparr>canvas_width := toUnsignedLong P (videoWidth s / 2),
       canvas_height := toUnsignedLong P (videoHeight s / 2),
       hasStartedDrawing := True\<rparr>"

subsection \<open>Events\<close>

text \<open>
  One constructor for each listener the module registers, one for each handler installed
  on the recorder, one for the module's start, and one for what the platform does to the
  video element on its own (\<open>VideoChanged paused ended width height\<close>). A user event
  carries what the user entered and the answers of the platform calls the handler makes.
\<close>

text \<open>
  The platform fires \<open>dataavailable\<close> and \<open>stop\<close> at a recorder's handlers when it has
  queued them after \<open>stop()\<close>, and may fire them on its own: the event runs the handler
  in either case, and is taken off the queue when it is the one the queue holds first.
\<close>

definition delivered :: "recorder_event \<Rightarrow> 'n app \<Rightarrow> 'n app" where
  "delivered ev s =
     (case recorderEvents s of
        [] \<Rightarrow> s
      | e # q \<Rightarrow> if e = ev then s\<lparr>recorderEvents := q\<rparr> else s)"

datatype 'n event =
    StartApp "thrown + mediaDeviceInfo list" acquire_answer
  | CaptureClick bool string
  | RecordClick "thrown option"
  | SwitchCameraClick acquire_answer
  | ZoomInput string
  | SaveClick string
  | CameraSelected string acquire_answer
  | Playing
  | DataAvailable blob
  | RecorderStopped
  | BeforeUnload
  | VideoChanged bool bool 'n 'n

fun step :: "('n::{zero,numeral,minus,inverse}) platform \<Rightarrow> 'n app \<Rightarrow> 'n event \<Rightarrow> 'n app" where
  "step P s (StartApp devices a) = startApp devices a s"
| "step P s (CaptureClick tempCtx data) = fst (takePicture P tempCtx data s)"
| "step P s (RecordClick rejected) = toggleRecording rejected s"
| "step P s (SwitchCameraClick a) = switchCamera P a s"
| "step P s (ZoomInput v) = handleZoomChange P (s\<lparr>zoomSlider_value := v\<rparr>)"
| "step P s (SaveClick now) = s"
| "step P s (CameraSelected v a) =
     handleCameraSelectChange P a
       (s\<lparr>cameraSelect_value := select_value (cameraSelect_options s) v\<rparr>)"
| "step P s Playing = on_playing P s"
| "step P s (DataAvailable d) =
     (if mediaRecorder s = None then s else ondataavailable d (delivered DataAvailableEvent s))"
| "step P s RecorderStopped =
     (if mediaRecorder s = None then s else onstop P (delivered StopEvent s))"
| "step P s BeforeUnload = stopCurrentStream s"
| "step P s (VideoChanged p e w h) =
     s\<lparr>video_paused := p, video_ended := e, videoWidth := w, videoHeight := h\<rparr>"

definition run :: "('n::{zero,numeral,minus,inverse}) platform \<Rightarrow> 'n app \<Rightarrow> 'n event list \<Rightarrow> 'n app" where
  "run P s evs = foldl (step P) s evs"

subsection \<open>A worked example\<close>

text \<open>
  A platform over the reals and a page as it is when the module is loaded, for the
  examples that follow the theorems. The page has two cameras; \<open>example_live\<close> is the
  page after the module has started, the front camera was granted and its video plays at
  1280 by 720.
\<close>

definition example_platform :: "real platform" where
  "example_platform =
     \<lparr>parseFloat = (\<lambda>v. if v = ''4'' then 4 else if v = ''2'' then 2 else 1),
      toFixed1 = (\<lambda>x. if x = 4 then ''4.0'' else if x = 2 then ''2.0'' else ''1.0''),
      toUnsignedLong = (\<lambda>x. of_int \<lfloor>x\<rfloor>),
      createObjectURL = (\<lambda>b. ''blob:'' @ blob_type b),
      location_href = ''https://camera.example/''\<rparr>"

definition example_page :: "real app" where
  "example_page =
     \<lparr>ctx = True, currentStream = None, currentZoom = 1, hasStartedDrawing = False,
      mediaRecorder = None, recordedChunks = [], isRecording = False, mediaType = None,
      videoDevices = [], currentDeviceIndex = 0, video_srcObject = None,
      video_paused = True, video_ended = False, videoWidth = 0, videoHeight = 0,
      canvas_width = 300, canvas_height = 150, photo_src = [], photo_hidden = True,
      recordedVideo_src = [], recordedVideo_hidden = True,
      captureButton_disabled = False, recordButton_disabled = False,
      recordButton_recording = False, recordButton_text = RecordText,
      recordButton_ariaLabel = None,
      switchCameraButton_hidden = False, switchCameraButton_disabled = False,
      saveButton_hidden = True, saveButton_disabled = False,
      saveButton_text = SavePhotoText, zoomSlider_value = ''1'',
      zoomSlider_disabled = False, zoomValueDisplay = ''1.0'', errorMsg_text = None,
      errorMsg_hidden = True, cameraSelect_options = [], cameraSelect_value = [],
      cameraSelect_disabled = False, container_hidden = Some False, console = [],
      stoppedStreams = [], recorderEvents = []\<rparr>"

definition front_camera :: mediaDeviceInfo where
  "front_camera = \<lparr>kind = VideoInput, deviceId = ''front'', label = ''Front camera''\<rparr>"

definition back_camera :: mediaDeviceInfo where
  "back_camera = \<lparr>kind = VideoInput, deviceId = ''back'', label = ''Back camera''\<rparr>"

definition front_stream :: mediaStream where
  "front_stream = \<lparr>stream_id = 1, videoTrack_deviceId = Some ''front'', audioTracks = [7]\<rparr>"

definition granted :: acquire_answer where
  "granted = \<lparr>getUserMedia = Inr front_stream, play = None,
               enumerateDevices = Inr [front_camera, back_camera]\<rparr>"

definition denied :: acquire_answer where
  "denied = \<lparr>getUserMedia = Inl (ErrorObject ''Permission denied''), play = None,
              enumerateDevices = Inr [front_camera, back_camera]\<rparr>"

definition example_live :: "real app" where
  "example_live =
     run example_platform example_page
       [StartApp (Inr [front_camera, back_camera]) granted, VideoChanged False False 1280 720,
        Playing]"

text \<open>The same page after the slider was moved to 4.\<close>

definition example_zoomed :: "real app" where
  "example_zoomed = step example_platform example_live (ZoomInput ''4'')"

text \<open>
  A recording on the live page: started (\<open>example_recording\<close>), then one chunk delivered,
  stopped and finalized (\<open>example_recorded\<close>).
\<close>

definition example_chunk :: blob where
  "example_chunk = \<lparr>blob_bytes = ''webm'', blob_type = ''video/webm''\<rparr>"

definition example_recording :: "real app" where
  "example_recording = step example_platform example_live (RecordClick None)"

definition example_recorded :: "real app" where
  "example_recorded =
     run example_platform example_recording
       [DataAvailable example_chunk, RecordClick None, RecorderStopped]"

text \<open>
  A photo taken on the live page, a recording started after it, and the same recording
  stopped with one chunk delivered but not yet finalized; a chunk without data; a reading
  of the clock.
\<close>

definition example_data :: string where
  "example_data = ''data:image/jpeg;base64,AA''"

definition example_photo_then_clip :: "real app" where
  "example_photo_then_clip =
     run example_platform example_live
       [CaptureClick True example_data, RecordClick None, DataAvailable example_chunk,
        RecordClick None]"

definition example_recording_after_photo :: "real app" where
  "example_recording_after_photo =
     run example_platform example_live [CaptureClick True example_data, RecordClick None]"

definition empty_chunk :: blob where
  "empty_chunk = \<lparr>blob_bytes = [], blob_type = ''video/webm''\<rparr>"

text \<open>
  Two acquisitions that overlap on the live page: the switch button asks for the back
  camera, and while that request is pending the user picks the front camera in the
  dropdown; then the first request is granted and the second is refused.
\<close>

definition back_stream :: mediaStream where
  "back_stream = \<lparr>stream_id = 2, videoTrack_deviceId = Some ''back'', audioTracks = [8]\<rparr>"

definition granted_back :: acquire_answer where
  "granted_back = \<lparr>getUserMedia = Inr back_stream, play = None,
                    enumerateDevices = Inr [front_camera, back_camera]\<rparr>"

definition busy :: acquire_answer where
  "busy = \<lparr>getUserMedia = Inl (ErrorObject ''Could not start video source''), play = None,
            enumerateDevices = Inr [front_camera, back_camera]\<rparr>"

definition example_switch_pending :: "real app" where
  "example_switch_pending = fst (the (switchCamera_request example_platform example_live))"

definition example_both_pending :: "real app" where
  "example_both_pending =
     fst (handleCameraSelectChange_request example_platform
            (example_switch_pending
               \<lparr>cameraSelect_value :=
                  select_value (cameraSelect_options example_switch_pending) ''front''\<rparr>))"

definition example_overlap :: "real app" where
  "example_overlap =
     initCamera_resume busy (initCamera_resume granted_back example_both_pending)"

text \<open>The live page on a platform that refuses the codec, after one click on record.\<close>

definition not_supported :: thrown where
  "not_supported = ErrorObject ''NotSupportedError''"

definition example_refused :: "real app" where
  "example_refused = step example_platform example_live (RecordClick (Some not_supported))"

definition example_timestamp :: string where
  "example_timestamp = ''2024-05-01T10:20:30.123Z''"

subsection \<open>Views of the state\<close>

text \<open>
  The groups of fields the properties below are about: the recording state, the artifact
  that \<open>saveMedia\<close> reads, the \<open>disabled\<close> flags of the controls, and everything that
  acquiring a stream leaves alone.
\<close>

definition recording_view :: "'n app \<Rightarrow> bool \<times> recorder option \<times> blob list" where
  "recording_view s = (isRecording s, mediaRecorder s, recordedChunks s)"

definition artifact_view :: "'n app \<Rightarrow> media_kind option \<times> string \<times> string" where
  "artifact_view s = (mediaType s, photo_src s, recordedVideo_src s)"

definition controls_view :: "'n app \<Rightarrow> bool \<times> bool \<times> bool \<times> bool \<times> bool \<times> bool" where
  "controls_view s =
     (captureButton_disabled s, switchCameraButton_disabled s, cameraSelect_disabled s,
      zoomSlider_disabled s, saveButton_disabled s, recordButton_disabled s)"

definition untouched_by_acquire ::
  "'n app \<Rightarrow> ((bool \<times> recorder option \<times> blob list) \<times> (media_kind option \<times> string \<times> string)
     \<times> (bool \<times> bool \<times> bool \<times> bool \<times> bool \<times> bool) \<times> 'n \<times> string \<times> string \<times> bool)" where
  "untouched_by_acquire s =
     (recording_view s, artifact_view s, controls_view s, currentZoom s, zoomSlider_value s,
      zoomValueDisplay s, ctx s)"

text \<open>
  The events that publish an artifact, and the two invariants of the recording state
  proved below.
\<close>

fun produces_artifact :: "'n event \<Rightarrow> bool" where
  "produces_artifact (CaptureClick tempCtx data) = True"
| "produces_artifact RecorderStopped = True"
| "produces_artifact e = False"

definition chunks_nonempty :: "'n app \<Rightarrow> bool" where
  "chunks_nonempty s \<longleftrightarrow> (\<forall>b \<in> set (recordedChunks s). 0 < blob_size b)"

definition recording_encodes :: "'n app \<Rightarrow> bool" where
  "recording_encodes s \<longleftrightarrow>
     (isRecording s \<longrightarrow>
        (case mediaRecorder s of None \<Rightarrow> False | Some r \<Rightarrow> rec_state r = Encoding))"

text \<open>
  The requested codec is a constant of the source, and whether the platform supports it
  does not change while the page lives. On a platform that does not support it, every
  click on the record button that gets as far as the constructor is answered by the
  constructor's exception.
\<close>

fun codec_rejected :: "'n event \<Rightarrow> bool" where
  "codec_rejected (RecordClick rejected) = (rejected \<noteq> None)"
| "codec_rejected e = True"

definition recording_view_unused :: "'n app \<Rightarrow> bool" where
  "recording_view_unused s \<longleftrightarrow> \<not> isRecording s \<and> mediaRecorder s = None \<and> recordedChunks s = []"

definition recording_controls :: "'n app \<Rightarrow> bool" where
  "recording_controls s \<longleftrightarrow>
     (isRecording s \<longrightarrow>
        captureButton_disabled s \<and> switchCameraButton_disabled s \<and> cameraSelect_disabled s
        \<and> \<not> zoomSlider_disabled s)"

section \<open>Properties\<close>

subsection \<open>What acquiring a stream leaves alone\<close>

lemmas acquire_defs =
  showError_def stopCurrentStream_def populateCameraList_def initCamera_request_def
  initCamera_resume_def initCamera_def startApp_def

lemmas handler_defs =
  acquire_defs takePicture_def updateRecordingUI_def startRecording_def stopRecording_def
  toggleRecording_def ondataavailable_def onstop_def handleZoomChange_def
  switchCamera_request_def switchCamera_def handleCameraSelectChange_request_def
  handleCameraSelectChange_def on_playing_def

lemmas example_defs = example_platform_def example_page_def front_camera_def back_camera_def
  front_stream_def granted_def denied_def


lemmas view_defs = recording_view_def artifact_view_def controls_view_def untouched_by_acquire_def

lemma showError_untouched: "untouched_by_acquire (showError m s) = untouched_by_acquire s"
  by (simp add: view_defs showError_def)

lemma stopCurrentStream_untouched:
  "untouched_by_acquire (stopCurrentStream s) = untouched_by_acquire s"
  by (simp add: view_defs stopCurrentStream_def split: option.splits)

lemma populateCameraList_untouched:
  "untouched_by_acquire (populateCameraList x s) = untouched_by_acquire s"
  by (simp add: view_defs populateCameraList_def showError_def Let_def split: sum.splits)

lemma initCamera_request_untouched:
  "untouched_by_acquire (fst (initCamera_request dev s)) = untouched_by_acquire s"
  by (simp add: initCamera_request_def Let_def stopCurrentStream_untouched)

lemma initCamera_resume_untouched:
  "untouched_by_acquire (initCamera_resume a s) = untouched_by_acquire s"
proof (cases "getUserMedia a")
  case (Inl e)
  then show ?thesis by (simp add: initCamera_resume_def showError_untouched)
next
  case (Inr st)
  define s1 where "s1 = s\<lparr>currentStream := Some st, video_srcObject := Some st\<rparr>"
  have s1: "untouched_by_acquire s1 = untouched_by_acquire s"
    by (simp add: view_defs s1_def)
  show ?thesis
  proof (cases "play a")
    case (Some e)
    with Inr s1 show ?thesis
      by (simp add: initCamera_resume_def showError_untouched s1_def)
  next
    case None
    define s2 where "s2 = (if videoDevices s1 \<noteq> [] \<and> label (hd (videoDevices s1)) = []
               then populateCameraList (enumerateDevices a) s1 else s1)"
    have s2: "untouched_by_acquire s2 = untouched_by_acquire s"
      using s1 by (simp add: populateCameraList_untouched s2_def)
    have upd: "untouched_by_acquire (t\<lparr>currentDeviceIndex := i, cameraSelect_value := v\<rparr>)
                 = untouched_by_acquire t" for t :: "'a app" and i v
      by (simp add: view_defs)
    have "initCamera_resume a s =
            (case videoTrack_deviceId st of
               None \<Rightarrow> s2
             | Some d \<Rightarrow>
                 if d = [] then s2
                 else (case findIndex (\<lambda>v. deviceId v = d) (videoDevices s2) of
                         None \<Rightarrow> s2
                       | Some idx \<Rightarrow>
                           s2\<lparr>currentDeviceIndex := idx,
                               cameraSelect_value := select_value (cameraSelect_options s2) d\<rparr>))"
      using Inr None unfolding s2_def s1_def by (simp add: initCamera_resume_def Let_def)
    then show ?thesis
      using s2 by (simp add: upd split: option.splits)
  qed
qed

lemma initCamera_untouched: "untouched_by_acquire (initCamera dev a s) = untouched_by_acquire s"
  by (simp add: initCamera_def initCamera_resume_untouched initCamera_request_untouched)

lemma startApp_untouched: "untouched_by_acquire (startApp x a s) = untouched_by_acquire s"
  by (simp add: startApp_def initCamera_untouched populateCameraList_untouched)

subsection \<open>What each handler leaves alone\<close>

lemma initCamera_views:
  "recording_view (initCamera dev a s) = recording_view s"
  "artifact_view (initCamera dev a s) = artifact_view s"
  "controls_view (initCamera dev a s) = controls_view s"
  "currentZoom (initCamera dev a s) = currentZoom s"
  using initCamera_untouched [of dev a s] by (simp_all add: untouched_by_acquire_def)

lemma startApp_views:
  "recording_view (startApp x a s) = recording_view s"
  "artifact_view (startApp x a s) = artifact_view s"
  "controls_view (startApp x a s) = controls_view s"
  using startApp_untouched [of x a s] by (simp_all add: untouched_by_acquire_def)

lemma stopCurrentStream_views:
  "recording_view (stopCurrentStream s) = recording_view s"
  "artifact_view (stopCurrentStream s) = artifact_view s"
  "controls_view (stopCurrentStream s) = controls_view s"
  using stopCurrentStream_untouched [of s] by (simp_all add: untouched_by_acquire_def)

lemma takePicture_views:
  "recording_view (fst (takePicture P tempCtx data s)) = recording_view s"
  "controls_view (fst (takePicture P tempCtx data s)) = controls_view s"
  by (simp_all add: takePicture_def Let_def view_defs)

lemma switchCamera_eq:
  "switchCamera P a s =
     (if 1 < length (videoDevices s) then
        initCamera
          (Some (deviceId (videoDevices s ! ((currentDeviceIndex s + 1) mod length (videoDevices s)))))
          a
          (s\<lparr>currentDeviceIndex := (currentDeviceIndex s + 1) mod length (videoDevices s),
             cameraSelect_value :=
               select_value (cameraSelect_options s)
                 (deviceId (videoDevices s ! ((currentDeviceIndex s + 1) mod length (videoDevices s)))),
             zoomSlider_value := ''1'', currentZoom := 1, zoomValueDisplay := toFixed1 P 1\<rparr>)
      else s)"
  by (simp add: switchCamera_def switchCamera_request_def initCamera_def Let_def
      split: prod.splits)

lemma switchCamera_views:
  "recording_view (switchCamera P a s) = recording_view s"
  "controls_view (switchCamera P a s) = controls_view s"
  "artifact_view (switchCamera P a s) = artifact_view s"
  unfolding switchCamera_eq
  by (simp_all add: initCamera_views) (simp_all add: view_defs)

lemma handleCameraSelectChange_eq:
  "handleCameraSelectChange P a s =
     initCamera (Some (cameraSelect_value s)) a
       (s\<lparr>zoomSlider_value := ''1'', currentZoom := 1, zoomValueDisplay := toFixed1 P 1\<rparr>)"
  by (simp add: handleCameraSelectChange_def handleCameraSelectChange_request_def
      initCamera_def Let_def)

lemma handleCameraSelectChange_views:
  "recording_view (handleCameraSelectChange P a s) = recording_view s"
  "controls_view (handleCameraSelectChange P a s) = controls_view s"
  "artifact_view (handleCameraSelectChange P a s) = artifact_view s"
  unfolding handleCameraSelectChange_eq
  by (simp_all add: initCamera_views) (simp_all add: view_defs)

lemma toggleRecording_artifact:
  "artifact_view (toggleRecording rejected s) = artifact_view s"
  by (simp add: toggleRecording_def startRecording_def stopRecording_def MediaRecorder_stop_def
      updateRecordingUI_def showError_def view_defs Let_def split: option.splits)

lemma toggleRecording_buttons:
  "saveButton_disabled (toggleRecording rejected s) = saveButton_disabled s"
  "recordButton_disabled (toggleRecording rejected s) = recordButton_disabled s"
  by (simp_all add: toggleRecording_def startRecording_def stopRecording_def
      MediaRecorder_stop_def updateRecordingUI_def showError_def Let_def split: option.splits)

lemma toggleRecording_controls:
  "recording_controls s \<Longrightarrow> recording_controls (toggleRecording rejected s)"
  by (simp add: recording_controls_def toggleRecording_def startRecording_def
      stopRecording_def MediaRecorder_stop_def updateRecordingUI_def showError_def Let_def
      split: option.splits)

lemma toggleRecording_chunks:
  "chunks_nonempty s \<Longrightarrow> chunks_nonempty (toggleRecording rejected s)"
  by (simp add: chunks_nonempty_def toggleRecording_def startRecording_def
      stopRecording_def MediaRecorder_stop_def updateRecordingUI_def showError_def Let_def
      split: option.splits)


lemma handleZoomChange_views:
  "recording_view (handleZoomChange P s) = recording_view s"
  "controls_view (handleZoomChange P s) = controls_view s"
  "artifact_view (handleZoomChange P s) = artifact_view s"
  by (simp_all add: handleZoomChange_def Let_def view_defs)

lemma on_playing_views:
  "recording_view (on_playing P s) = recording_view s"
  "controls_view (on_playing P s) = controls_view s"
  "artifact_view (on_playing P s) = artifact_view s"
  by (simp_all add: on_playing_def view_defs)

lemma onstop_views:
  "recording_view (onstop P s) = recording_view s"
  "controls_view (onstop P s) = controls_view s"
  by (simp_all add: onstop_def Let_def view_defs)

lemma ondataavailable_views:
  "controls_view (ondataavailable d s) = controls_view s"
  "artifact_view (ondataavailable d s) = artifact_view s"
  "isRecording (ondataavailable d s) = isRecording s"
  by (simp_all add: ondataavailable_def view_defs)

lemma delivered_views:
  "recording_view (delivered ev s) = recording_view s"
  "controls_view (delivered ev s) = controls_view s"
  "artifact_view (delivered ev s) = artifact_view s"
  by (simp_all add: delivered_def view_defs split: list.splits)

lemma delivered_fields:
  "isRecording (delivered ev s) = isRecording s"
  "mediaRecorder (delivered ev s) = mediaRecorder s"
  "recordedChunks (delivered ev s) = recordedChunks s"
  using delivered_views(1) [of ev s] by (simp_all add: recording_view_def)

lemma field_update_views:
  "recording_view (s\<lparr>zoomSlider_value := v\<rparr>) = recording_view s"
  "controls_view (s\<lparr>zoomSlider_value := v\<rparr>) = controls_view s"
  "artifact_view (s\<lparr>zoomSlider_value := v\<rparr>) = artifact_view s"
  "recording_view (s\<lparr>cameraSelect_value := v\<rparr>) = recording_view s"
  "controls_view (s\<lparr>cameraSelect_value := v\<rparr>) = controls_view s"
  "artifact_view (s\<lparr>cameraSelect_value := v\<rparr>) = artifact_view s"
  "recording_view (s\<lparr>video_paused := p, video_ended := e, videoWidth := w, videoHeight := h\<rparr>)
     = recording_view s"
  "controls_view (s\<lparr>video_paused := p, video_ended := e, videoWidth := w, videoHeight := h\<rparr>)
     = controls_view s"
  "artifact_view (s\<lparr>video_paused := p, video_ended := e, videoWidth := w, videoHeight := h\<rparr>)
     = artifact_view s"
  by (simp_all add: view_defs)

lemmas handler_views =
  startApp_views takePicture_views switchCamera_views handleCameraSelectChange_views
  handleZoomChange_views on_playing_views onstop_views ondataavailable_views
  stopCurrentStream_views delivered_views field_update_views

lemma step_controls_view:
  "controls_view (step P s e) = controls_view s \<or> (\<exists>rejected. e = RecordClick rejected)"
  by (cases e) (simp_all add: handler_views)

lemma step_recording_view:
  "recording_view (step P s e) = recording_view s
   \<or> (\<exists>rejected. e = RecordClick rejected) \<or> (\<exists>d. e = DataAvailable d)"
  by (cases e) (simp_all add: handler_views)

lemma step_artifact_view:
  "\<not> produces_artifact e \<Longrightarrow> artifact_view (step P s e) = artifact_view s"
  by (cases e) (simp_all add: handler_views toggleRecording_artifact)


lemma step_isRecording:
  "isRecording (step P s e) = isRecording s \<or> (\<exists>rejected. e = RecordClick rejected)"
proof (cases "\<exists>d. e = DataAvailable d")
  case True
  then show ?thesis by (auto simp: ondataavailable_views delivered_fields split: if_splits)
next
  case False
  with step_recording_view [of P s e] show ?thesis
    by (auto simp: recording_view_def)
qed

lemma step_recording_controls:
  assumes "recording_controls s"
  shows "recording_controls (step P s e)"
proof (cases "\<exists>rejected. e = RecordClick rejected")
  case True
  with assms show ?thesis by (auto simp: toggleRecording_controls)
next
  case False
  with step_controls_view [of P s e] step_isRecording [of P s e] assms
  show ?thesis by (simp add: recording_controls_def controls_view_def)
qed

lemma step_buttons:
  "saveButton_disabled (step P s e) = saveButton_disabled s
   \<and> recordButton_disabled (step P s e) = recordButton_disabled s"
proof (cases "\<exists>rejected. e = RecordClick rejected")
  case True
  then show ?thesis by (auto simp: toggleRecording_buttons)
next
  case False
  with step_controls_view [of P s e] show ?thesis
    by (simp add: controls_view_def)
qed

lemma step_chunks_nonempty:
  assumes "chunks_nonempty s"
  shows "chunks_nonempty (step P s e)"
proof -
  consider rejected where "e = RecordClick rejected" | d where "e = DataAvailable d"
    | "recording_view (step P s e) = recording_view s"
    using step_recording_view [of P s e] by blast
  then show ?thesis
  proof cases
    case 1
    with assms show ?thesis by (simp add: toggleRecording_chunks)
  next
    case 2
    with assms show ?thesis
      by (simp add: chunks_nonempty_def ondataavailable_def delivered_fields)
  next
    case 3
    with assms show ?thesis by (simp add: chunks_nonempty_def recording_view_def)
  qed
qed

lemma run_Nil: "run P s [] = s"
  by (simp add: run_def)

lemma run_snoc: "run P s (evs @ [e]) = step P (run P s evs) e"
  by (simp add: run_def)

lemma run_recording_controls:
  "recording_controls s \<Longrightarrow> recording_controls (run P s evs)"
  by (induction evs rule: rev_induct) (simp_all add: run_Nil run_snoc step_recording_controls)

lemma run_buttons:
  "saveButton_disabled (run P s evs) = saveButton_disabled s
   \<and> recordButton_disabled (run P s evs) = recordButton_disabled s"
  by (induction evs rule: rev_induct) (simp_all add: run_Nil run_snoc step_buttons)

lemma run_chunks_nonempty:
  "chunks_nonempty s \<Longrightarrow> chunks_nonempty (run P s evs)"
  by (induction evs rule: rev_induct) (simp_all add: run_Nil run_snoc step_chunks_nonempty)

lemma run_artifact_view:
  "\<forall>e \<in> set evs. \<not> produces_artifact e \<Longrightarrow> artifact_view (run P s evs) = artifact_view s"
  by (induction evs rule: rev_induct) (simp_all add: run_Nil run_snoc step_artifact_view)

lemma saveMedia_artifact_view:
  "artifact_view t = artifact_view s \<Longrightarrow> saveMedia P i t = saveMedia P i s"
  by (simp add: saveMedia_def artifact_view_def)

text \<open>A page that is recording has a recorder, and the recorder is encoding.\<close>

lemma toggleRecording_encodes:
  "recording_encodes s \<Longrightarrow> recording_encodes (toggleRecording rejected s)"
  by (auto simp: recording_encodes_def toggleRecording_def startRecording_def stopRecording_def
      MediaRecorder_stop_def updateRecordingUI_def showError_def Let_def split: option.splits)

lemma step_encodes:
  assumes "recording_encodes s"
  shows "recording_encodes (step P s e)"
proof -
  consider rejected where "e = RecordClick rejected" | d where "e = DataAvailable d"
    | "recording_view (step P s e) = recording_view s"
    using step_recording_view [of P s e] by blast
  then show ?thesis
  proof cases
    case 1
    with assms show ?thesis by (simp add: toggleRecording_encodes)
  next
    case 2
    with assms show ?thesis
      by (auto simp: recording_encodes_def ondataavailable_def delivered_fields)
  next
    case 3
    with assms show ?thesis by (simp add: recording_encodes_def recording_view_def)
  qed
qed

lemma recording_has_recorder:
  assumes "initial s0" and "isRecording (run P s0 evs)"
  shows "\<exists>r. mediaRecorder (run P s0 evs) = Some r \<and> rec_state r = Encoding"
proof -
  have "recording_encodes (run P s0 evs)"
  proof (induction evs rule: rev_induct)
    case Nil
    from assms(1) show ?case by (simp add: run_Nil initial_def recording_encodes_def)
  next
    case (snoc e evs)
    then show ?case unfolding run_snoc by (rule step_encodes)
  qed
  with assms(2) show ?thesis
    by (simp add: recording_encodes_def split: option.splits)
qed

text \<open>
  On a platform that refuses the codec no recorder is ever constructed, so the page never
  records and the chunk buffer stays empty.
\<close>

lemma toggleRecording_unused:
  "recording_view_unused s \<Longrightarrow> rejected \<noteq> None \<Longrightarrow>
   recording_view_unused (toggleRecording rejected s)"
  by (auto simp: recording_view_unused_def toggleRecording_def startRecording_def
      showError_def Let_def split: option.splits)

lemma step_unused:
  assumes "recording_view_unused s" and "codec_rejected e"
  shows "recording_view_unused (step P s e)"
proof -
  consider rejected where "e = RecordClick rejected" | d where "e = DataAvailable d"
    | "recording_view (step P s e) = recording_view s"
    using step_recording_view [of P s e] by blast
  then show ?thesis
  proof cases
    case 1
    with assms show ?thesis by (simp add: toggleRecording_unused)
  next
    case 2
    with assms show ?thesis by (simp add: recording_view_unused_def)
  next
    case 3
    with assms show ?thesis by (simp add: recording_view_unused_def recording_view_def)
  qed
qed

lemma run_unused:
  "recording_view_unused s \<Longrightarrow> \<forall>e \<in> set evs. codec_rejected e \<Longrightarrow>
   recording_view_unused (run P s evs)"
  by (induction evs rule: rev_induct) (simp_all add: run_Nil run_snoc step_unused)

subsection \<open>The worked example, evaluated\<close>

lemma example_live_fields:
  "ctx example_live" "\<not> video_paused example_live" "\<not> video_ended example_live"
  "videoWidth example_live = 1280" "videoHeight example_live = 720"
  "currentZoom example_live = 1" "canvas_width example_live = 640"
  "canvas_height example_live = 360" "currentStream example_live = Some front_stream"
  "videoDevices example_live = [front_camera, back_camera]"
  "currentDeviceIndex example_live = 0"
  "\<not> isRecording example_live" "mediaRecorder example_live = None"
  "recordedChunks example_live = []" "mediaType example_live = None"
  "\<not> saveButton_disabled example_live"
  "cameraSelect_options example_live =
     [(''front'', Label ''Front camera''), (''back'', Label ''Back camera'')]"
  "cameraSelect_value example_live = ''front''"
  "stoppedStreams example_live = []" "recorderEvents example_live = []"
  by (simp_all add: example_live_def run_def handler_defs example_defs Let_def select_value_def)

lemma example_zoomed_fields:
  "ctx example_zoomed" "\<not> video_paused example_zoomed" "\<not> video_ended example_zoomed"
  "videoWidth example_zoomed = 1280" "videoHeight example_zoomed = 720"
  "currentZoom example_zoomed = 4" "canvas_width example_zoomed = 640"
  "canvas_height example_zoomed = 360"
  by (simp_all add: example_zoomed_def handleZoomChange_def example_live_fields
      example_platform_def Let_def)

lemma example_zoomed_drawFrame:
  "drawFrame example_zoomed =
     Some \<lparr>sx = 480, sy = 270, sw = 320, sh = 180, dx = 0, dy = 0, dw = 640, dh = 360\<rparr>"
  by (simp add: drawFrame_def example_zoomed_fields Let_def)

lemma example_zoomed_takePicture:
  "snd (takePicture example_platform True ''data:image/jpeg;base64,AA'' example_zoomed) =
     Some \<lparr>sx = 480, sy = 270, sw = 320, sh = 180, dx = 0, dy = 0, dw = 320, dh = 180\<rparr>"
  by (simp add: takePicture_def example_zoomed_fields Let_def example_platform_def)

lemma example_recording_fields:
  "isRecording example_recording" "recordedChunks example_recording = []"
  "mediaRecorder example_recording =
     Some \<lparr>rec_audio = [7], rec_mimeType = recording_mimeType, rec_state = Encoding\<rparr>"
  "captureButton_disabled example_recording"
  "currentStream example_recording = Some front_stream" "ctx example_recording"
  by (simp_all add: example_recording_def toggleRecording_def startRecording_def
      updateRecordingUI_def example_live_fields front_stream_def Let_def)

lemma example_recorded_fields:
  "\<not> isRecording example_recorded" "recordedChunks example_recorded = [example_chunk]"
  "mediaRecorder example_recorded =
     Some \<lparr>rec_audio = [7], rec_mimeType = recording_mimeType, rec_state = Inactive\<rparr>"
  "currentStream example_recorded = Some front_stream" "ctx example_recorded"
  "mediaType example_recorded = Some Video"
  by (simp_all add: example_recorded_def run_def toggleRecording_def stopRecording_def
      MediaRecorder_stop_def delivered_def updateRecordingUI_def ondataavailable_def
      onstop_def example_recording_fields example_chunk_def blob_size_def Let_def
      split: list.splits)

lemma example_page_initial: "initial example_page"
  by (simp add: initial_def example_page_def)

lemma example_live_run:
  "run example_platform example_live evs =
     run example_platform example_page
       ([StartApp (Inr [front_camera, back_camera]) granted,
         VideoChanged False False 1280 720, Playing] @ evs)"
  by (simp add: example_live_def run_def)

lemma example_recording_after_photo_fields:
  "isRecording example_recording_after_photo"
  "captureButton_disabled example_recording_after_photo"
  "switchCameraButton_disabled example_recording_after_photo"
  "cameraSelect_disabled example_recording_after_photo"
  "\<not> zoomSlider_disabled example_recording_after_photo"
  "\<not> saveButton_disabled example_recording_after_photo"
  "\<not> saveButton_hidden example_recording_after_photo"
  "mediaType example_recording_after_photo = Some Photo"
  by (simp_all add: example_recording_after_photo_def run_def takePicture_def
      toggleRecording_def startRecording_def updateRecordingUI_def example_live_fields Let_def)

lemma example_photo_then_clip_fields:
  "mediaType example_photo_then_clip = Some Photo"
  "photo_src example_photo_then_clip = example_data"
  "mediaRecorder example_photo_then_clip =
     Some \<lparr>rec_audio = [7], rec_mimeType = recording_mimeType, rec_state = Inactive\<rparr>"
  "recordedChunks example_photo_then_clip = [example_chunk]"
  by (simp_all add: example_photo_then_clip_def run_def takePicture_def
      toggleRecording_def startRecording_def stopRecording_def MediaRecorder_stop_def
      delivered_def updateRecordingUI_def ondataavailable_def example_live_fields
      example_chunk_def blob_size_def front_stream_def Let_def split: list.splits)

subsection \<open>Preview and capture crop the same rectangle\<close>

text \<open>
  Claim C1. Whenever the render loop draws a frame and a still capture draws one, and the
  frame width, the frame height and the zoom factor they read are the same, the source
  rectangle \<open>(sourceX, sourceY, sourceWidth, sourceHeight)\<close> they pass to \<open>drawImage\<close> is
  the same, and it is the crop rectangle of the specification. This holds for every
  number type, so for every zoom factor, in the slider's range or not; the two calls may
  still differ in their destination size.
\<close>

theorem crop_preview_capture_identical:
  fixes s1 s2 :: "('n::{zero,numeral,minus,inverse}) app"
  assumes "videoWidth s1 = videoWidth s2" and "videoHeight s1 = videoHeight s2"
    and "currentZoom s1 = currentZoom s2"
    and "drawFrame s1 = Some d" and "snd (takePicture P tempCtx data s2) = Some t"
  shows "source_rect d = source_rect t
         \<and> source_rect d = computeCrop_spec (videoWidth s1) (videoHeight s1) (currentZoom s1)"
  using assms
  by (auto simp: drawFrame_def takePicture_def source_rect_def computeCrop_spec_def Let_def
      split: if_splits)

text \<open>
  At 1280 by 720 and zoom 4 both crop the 320 by 180 rectangle at (480, 270); the preview
  scales it to the 640 by 360 canvas, the capture keeps its size.
\<close>

theorem crop_preview_capture_identical_witness:
  "drawFrame example_zoomed =
     Some \<lparr>sx = 480, sy = 270, sw = 320, sh = 180, dx = 0, dy = 0, dw = 640, dh = 360\<rparr>
   \<and> snd (takePicture example_platform True ''data:image/jpeg;base64,AA'' example_zoomed) =
     Some \<lparr>sx = 480, sy = 270, sw = 320, sh = 180, dx = 0, dy = 0, dw = 320, dh = 180\<rparr>
   \<and> source_rect
        \<lparr>sx = 480, sy = 270, sw = 320, sh = 180, dx = 0, dy = 0, dw = 640, dh = (360::real)\<rparr>
      = source_rect
        \<lparr>sx = 480, sy = 270, sw = 320, sh = 180, dx = 0, dy = 0, dw = 320, dh = (180::real)\<rparr>
   \<and> computeCrop_spec 1280 720 (4::real) = (480, 270, 320, 180)"
  using crop_preview_capture_identical
    [OF refl refl refl example_zoomed_drawFrame example_zoomed_takePicture]
  by (simp add: example_zoomed_drawFrame example_zoomed_takePicture example_zoomed_fields
      source_rect_def)

subsection \<open>Moving the zoom slider\<close>

text \<open>
  Claim C9. \<open>handleZoomChange\<close> writes the zoom factor and the text that displays it, and
  nothing else: the active stream, the device list, the device index, the recording state
  (flag, recorder, chunk buffer) and the current artifact are as before.
\<close>

theorem handleZoomChange_frame:
  "handleZoomChange P s =
     s\<lparr>currentZoom := parseFloat P (zoomSlider_value s),
       zoomValueDisplay := toFixed1 P (parseFloat P (zoomSlider_value s))\<rparr>
   \<and> currentStream (handleZoomChange P s) = currentStream s
   \<and> videoDevices (handleZoomChange P s) = videoDevices s
   \<and> currentDeviceIndex (handleZoomChange P s) = currentDeviceIndex s
   \<and> recording_view (handleZoomChange P s) = recording_view s
   \<and> artifact_view (handleZoomChange P s) = artifact_view s"
  by (simp add: handleZoomChange_def Let_def view_defs)

subsection \<open>Starting a recording without a stream\<close>

text \<open>
  Claim C3. When there is no active stream, or no drawing context, \<open>startRecording\<close>
  shows the error message and changes nothing else: the recording flag is as before (so
  a page that was idle stays idle), no recorder is created, the chunk buffer and the
  controls are untouched.
\<close>

theorem startRecording_without_stream:
  assumes "currentStream s = None \<or> \<not> ctx s"
  shows "startRecording rejected s =
           s\<lparr>errorMsg_text := Some CannotStartRecording, errorMsg_hidden := False,
             console := console s @ [Shown CannotStartRecording]\<rparr>
         \<and> isRecording (startRecording rejected s) = isRecording s
         \<and> mediaRecorder (startRecording rejected s) = mediaRecorder s
         \<and> recordedChunks (startRecording rejected s) = recordedChunks s
         \<and> controls_view (startRecording rejected s) = controls_view s
         \<and> (\<not> isRecording s \<longrightarrow>
              toggleRecording rejected s = startRecording rejected s
              \<and> \<not> isRecording (toggleRecording rejected s))"
  using assms
  by (auto simp: startRecording_def toggleRecording_def showError_def view_defs
      split: option.splits)

text \<open>On the page as loaded, before any stream was acquired:\<close>

theorem startRecording_without_stream_witness:
  "currentStream example_page = None
   \<and> \<not> isRecording example_page
   \<and> \<not> isRecording (toggleRecording None example_page)
   \<and> mediaRecorder (startRecording None example_page) = None
   \<and> errorMsg_text (startRecording None example_page) = Some CannotStartRecording
   \<and> \<not> errorMsg_hidden (startRecording None example_page)"
proof -
  have none: "currentStream example_page = None" and idle: "\<not> isRecording example_page"
    and norec: "mediaRecorder example_page = None"
    by (simp_all add: example_page_def)
  from none have "currentStream example_page = None \<or> \<not> ctx example_page" ..
  from startRecording_without_stream [OF this, of None] none idle norec
  show ?thesis by simp
qed

subsection \<open>A failed acquisition\<close>

text \<open>
  What the two halves of \<open>initCamera\<close> do when the request is refused. The first half
  releases the stream that is active and leaves none. The second half, run in whatever
  state the page is in when the refusal arrives, shows the access error and writes
  nothing else.
\<close>

lemma initCamera_request_releases:
  "currentStream (fst (initCamera_request dev s)) = None"
  "currentStream s = Some st \<Longrightarrow>
     stoppedStreams (fst (initCamera_request dev s)) = stoppedStreams s @ [st]"
  "currentStream s = None \<Longrightarrow>
     stoppedStreams (fst (initCamera_request dev s)) = stoppedStreams s"
  by (simp_all add: initCamera_request_def stopCurrentStream_def Let_def split: option.splits)

lemma initCamera_resume_refused:
  "getUserMedia a = Inl e \<Longrightarrow>
   initCamera_resume a t = showError (CameraAccessFailed (error_line e)) t"
  by (simp add: initCamera_resume_def)

text \<open>
  Claim C7, amended. For every attempt of \<open>initCamera\<close> whose \<open>getUserMedia\<close> request is
  refused (permission denied, device busy, no device): the stream that was active when
  the attempt began has had its tracks stopped and no stream is active when the request
  is issued; when the refusal arrives, in whatever state \<open>t\<close> the page is then, the access
  error is shown and \<open>currentStream\<close> is left as it is in \<open>t\<close>. So no active stream
  remains if no other acquisition has stored one while the request was pending; in
  particular none remains when the attempt runs without another handler in between.
\<close>

theorem initCamera_failure:
  assumes "getUserMedia a = Inl e"
  shows "currentStream (fst (initCamera_request dev s)) = None
         \<and> (\<forall>st. currentStream s = Some st \<longrightarrow>
               stoppedStreams (fst (initCamera_request dev s)) = stoppedStreams s @ [st])
         \<and> initCamera_resume a t =
             t\<lparr>errorMsg_text := Some (CameraAccessFailed (error_line e)),
               errorMsg_hidden := False,
               console := console t @ [Shown (CameraAccessFailed (error_line e))]\<rparr>
         \<and> currentStream (initCamera_resume a t) = currentStream t
         \<and> (currentStream t = None \<longrightarrow> currentStream (initCamera_resume a t) = None)
         \<and> currentStream (initCamera dev a s) = None
         \<and> errorMsg_text (initCamera dev a s) = Some (CameraAccessFailed (error_line e))
         \<and> \<not> errorMsg_hidden (initCamera dev a s)
         \<and> (\<forall>st. currentStream s = Some st \<longrightarrow>
               stoppedStreams (initCamera dev a s) = stoppedStreams s @ [st])"
  using assms
  by (simp add: initCamera_def initCamera_resume_refused initCamera_request_releases
      showError_def)

text \<open>The live page loses its stream when the back camera is refused:\<close>

theorem initCamera_failure_witness:
  "getUserMedia denied = Inl (ErrorObject ''Permission denied'')
   \<and> currentStream example_live = Some front_stream
   \<and> currentStream (fst (initCamera_request (Some ''back'') example_live)) = None
   \<and> currentStream (initCamera (Some ''back'') denied example_live) = None
   \<and> errorMsg_text (initCamera (Some ''back'') denied example_live)
       = Some (CameraAccessFailed (Some ''Permission denied''))
   \<and> \<not> errorMsg_hidden (initCamera (Some ''back'') denied example_live)
   \<and> stoppedStreams (initCamera (Some ''back'') denied example_live) = [front_stream]"
proof -
  have d: "getUserMedia denied = Inl (ErrorObject ''Permission denied'')"
    by (simp add: denied_def)
  from initCamera_failure [OF d, of "Some ''back''" example_live example_live] d
  show ?thesis by (simp add: example_live_fields)
qed

text \<open>
  The claim as first stated fails when two attempts overlap; nothing in the source
  disables the switch button or the dropdown while a request is pending. On the live
  page the switch button asks for the back camera, the user then picks the front camera
  in the dropdown, the first request is granted and the second is refused: the error of
  the refused attempt is shown and the back camera's stream is active.
\<close>

theorem initCamera_failure_overlapping:
  "currentStream example_both_pending = None
   \<and> getUserMedia busy = Inl (ErrorObject ''Could not start video source'')
   \<and> errorMsg_text example_overlap
       = Some (CameraAccessFailed (Some ''Could not start video source''))
   \<and> \<not> errorMsg_hidden example_overlap
   \<and> currentStream example_overlap = Some back_stream"
proof -
  have live: "videoDevices example_switch_pending = [front_camera, back_camera]"
    "cameraSelect_options example_switch_pending =
       [(''front'', Label ''Front camera''), (''back'', Label ''Back camera'')]"
    "currentStream example_switch_pending = None"
    by (simp_all add: example_switch_pending_def switchCamera_request_def
        initCamera_request_def stopCurrentStream_def example_live_fields Let_def)
  have pending: "currentStream example_both_pending = None"
    "videoDevices example_both_pending = [front_camera, back_camera]"
    by (simp_all add: example_both_pending_def handleCameraSelectChange_request_def
        initCamera_request_def stopCurrentStream_def live Let_def)
  have granted: "currentStream (initCamera_resume granted_back example_both_pending)
      = Some back_stream"
    by (simp add: initCamera_resume_def granted_back_def back_stream_def pending
        front_camera_def back_camera_def Let_def split: option.splits)
  have busy: "getUserMedia busy = Inl (ErrorObject ''Could not start video source'')"
    by (simp add: busy_def)
  have refused: "example_overlap =
      showError (CameraAccessFailed (Some ''Could not start video source''))
        (initCamera_resume granted_back example_both_pending)"
    unfolding example_overlap_def by (simp add: initCamera_resume_refused [OF busy])
  show ?thesis
    by (simp add: refused busy showError_def granted pending)
qed

text \<open>
  The claim is about a request that is refused. When the request is granted and it is
  \<open>video.play()\<close> that fails, the same message is shown and the new stream stays active.
\<close>

lemma initCamera_play_rejected:
  assumes "getUserMedia a = Inr st" and "play a = Some e"
  shows "currentStream (initCamera dev a s) = Some st
         \<and> errorMsg_text (initCamera dev a s) = Some (CameraAccessFailed (error_line e))"
  using assms
  by (auto simp: acquire_defs Let_def split: option.splits)

subsection \<open>The chunk buffer\<close>

text \<open>
  Claim C10. The data-available handler appends the chunk it is given exactly when the
  chunk's size is greater than zero; so whatever events the page goes through after it is
  loaded, every chunk in the buffer has a size greater than zero.
\<close>
theorem recorded_chunks_nonempty:
  fixes s0 :: "('n::{zero,numeral,minus,inverse}) app"
  assumes "initial s0"
  shows "recordedChunks (ondataavailable d s) =
           (if 0 < blob_size d then recordedChunks s @ [d] else recordedChunks s)
         \<and> (\<forall>b \<in> set (recordedChunks (run P s0 evs)). 0 < blob_size b)"
proof -
  from assms have "chunks_nonempty s0"
    by (simp add: initial_def chunks_nonempty_def)
  then have "chunks_nonempty (run P s0 evs)"
    by (rule run_chunks_nonempty)
  then show ?thesis
    by (simp add: chunks_nonempty_def ondataavailable_def)
qed

text \<open>
  A recording on the live page that is handed an empty chunk and then a chunk of four
  bytes keeps the second only:
\<close>

theorem recorded_chunks_nonempty_witness:
  "initial example_page
   \<and> recordedChunks
        (run example_platform example_live
           [RecordClick None, DataAvailable empty_chunk, DataAvailable example_chunk])
       = [example_chunk]
   \<and> 0 < blob_size example_chunk \<and> blob_size empty_chunk = 0"
proof -
  let ?s = "run example_platform example_live
              [RecordClick None, DataAvailable empty_chunk, DataAvailable example_chunk]"
  have chunks: "recordedChunks ?s = [example_chunk]"
    by (simp add: run_def toggleRecording_def startRecording_def updateRecordingUI_def
        ondataavailable_def delivered_fields example_live_fields example_chunk_def
        empty_chunk_def blob_size_def Let_def)
  have empty: "blob_size empty_chunk = 0"
    by (simp add: empty_chunk_def blob_size_def)
  from recorded_chunks_nonempty [OF example_page_initial, of empty_chunk example_page example_platform
      "[StartApp (Inr [front_camera, back_camera]) granted,
         VideoChanged False False 1280 720, Playing] @
       [RecordClick None, DataAvailable empty_chunk, DataAvailable example_chunk]"]
  have "\<forall>b \<in> set (recordedChunks ?s). 0 < blob_size b"
    by (simp add: example_live_run)
  with chunks have "0 < blob_size example_chunk" by simp
  with chunks empty example_page_initial show ?thesis by simp
qed

subsection \<open>Controls while recording\<close>

text \<open>
  Claim C5, amended. Whatever events the page goes through after it is loaded, whenever it
  is recording the capture button, the camera-switch button and the camera dropdown are
  disabled and the zoom slider is enabled. The \<open>disabled\<close> flags of the record/stop
  toggle and of the save button are never written: they are as the page's markup set them.
\<close>
theorem recording_disables_camera_controls:
  fixes s0 :: "('n::{zero,numeral,minus,inverse}) app"
  assumes "initial s0"
  shows "(isRecording (run P s0 evs) \<longrightarrow>
            captureButton_disabled (run P s0 evs)
            \<and> switchCameraButton_disabled (run P s0 evs)
            \<and> cameraSelect_disabled (run P s0 evs)
            \<and> \<not> zoomSlider_disabled (run P s0 evs))
         \<and> recordButton_disabled (run P s0 evs) = recordButton_disabled s0
         \<and> saveButton_disabled (run P s0 evs) = saveButton_disabled s0"
proof -
  from assms have "recording_controls s0"
    by (simp add: initial_def recording_controls_def)
  then have "recording_controls (run P s0 evs)"
    by (rule run_recording_controls)
  with run_buttons [of P s0 evs] show ?thesis
    by (simp add: recording_controls_def)
qed

text \<open>A recording started after a photo was taken:\<close>

theorem recording_disables_camera_controls_witness:
  "initial example_page
   \<and> isRecording example_recording_after_photo
   \<and> captureButton_disabled example_recording_after_photo
   \<and> switchCameraButton_disabled example_recording_after_photo
   \<and> cameraSelect_disabled example_recording_after_photo
   \<and> \<not> zoomSlider_disabled example_recording_after_photo
   \<and> saveButton_disabled example_recording_after_photo = saveButton_disabled example_page"
proof -
  have eq: "example_recording_after_photo =
      run example_platform example_page
        [StartApp (Inr [front_camera, back_camera]) granted,
         VideoChanged False False 1280 720, Playing,
         CaptureClick True example_data, RecordClick None]"
    by (simp add: example_recording_after_photo_def example_live_run)
  from recording_disables_camera_controls [OF example_page_initial, of example_platform
      "[StartApp (Inr [front_camera, back_camera]) granted,
        VideoChanged False False 1280 720, Playing,
        CaptureClick True example_data, RecordClick None]"]
  show ?thesis
    by (simp add: eq [symmetric] example_recording_after_photo_fields example_page_initial)
qed

text \<open>
  The claim as first stated counts the save button among the controls that are disabled
  while recording. In the same state the save button is shown and enabled:
\<close>

theorem save_button_enabled_while_recording:
  "isRecording example_recording_after_photo
   \<and> \<not> saveButton_hidden example_recording_after_photo
   \<and> \<not> saveButton_disabled example_recording_after_photo"
  by (simp add: example_recording_after_photo_fields)

subsection \<open>Saving the latest artifact\<close>

text \<open>
  Claim C6, amended. Let \<open>T\<close> be the ISO timestamp with every \<open>:\<close> and \<open>.\<close> replaced by
  \<open>-\<close>. After a capture that published a photo (its data URL being non-empty and not the
  page's URL), and until another artifact is published, \<open>saveMedia\<close> offers exactly one
  file, the photo, named \<open>photo-T.jpg\<close>. After a recording was finalized (its object URL
  being non-empty), and until another artifact is published, it offers exactly one file,
  the clip, named \<open>video-T.mp4\<close>. In both cases the state before may hold an older
  artifact of either kind: the latest one wins. While no artifact was published it offers
  nothing.
\<close>
theorem saveMedia_offers_latest_artifact:
  fixes s :: "('n::{zero,numeral,minus,inverse}) app"
  assumes "\<forall>e \<in> set evs. \<not> produces_artifact e"
  shows "(mediaType s = None \<longrightarrow> saveMedia P i (run P s evs) = None)
         \<and> (ctx s \<and> data \<noteq> [] \<and> data \<noteq> location_href P \<longrightarrow>
              saveMedia P i (run P (step P s (CaptureClick True data)) evs)
                = Some \<lparr>href = data, file_name = ''photo-'' @ timestamp i @ ''.jpg''\<rparr>)
         \<and> (mediaRecorder s \<noteq> None
              \<and> createObjectURL P (new_Blob (recordedChunks s) ''video/mp4'') \<noteq> [] \<longrightarrow>
              saveMedia P i (run P (step P s RecorderStopped) evs)
                = Some \<lparr>href = createObjectURL P (new_Blob (recordedChunks s) ''video/mp4''),
                        file_name = ''video-'' @ timestamp i @ ''.mp4''\<rparr>)"
proof -
  have quiet: "saveMedia P i (run P t evs) = saveMedia P i t" for t
    using run_artifact_view [OF assms, of P t] by (rule saveMedia_artifact_view)
  have none: "mediaType s = None \<Longrightarrow> saveMedia P i s = None"
    by (simp add: saveMedia_def)
  have photo: "ctx s \<Longrightarrow> data \<noteq> [] \<Longrightarrow> data \<noteq> location_href P \<Longrightarrow>
      saveMedia P i (step P s (CaptureClick True data))
        = Some \<lparr>href = data, file_name = ''photo-'' @ timestamp i @ ''.jpg''\<rparr>"
    by (simp add: saveMedia_def takePicture_def Let_def)
  have video: "mediaRecorder s \<noteq> None \<Longrightarrow>
      createObjectURL P (new_Blob (recordedChunks s) ''video/mp4'') \<noteq> [] \<Longrightarrow>
      saveMedia P i (step P s RecorderStopped)
        = Some \<lparr>href = createObjectURL P (new_Blob (recordedChunks s) ''video/mp4''),
                file_name = ''video-'' @ timestamp i @ ''.mp4''\<rparr>"
    by (auto simp: saveMedia_def onstop_def delivered_fields Let_def)
  show ?thesis
    using none photo video by (simp add: quiet)
qed

text \<open>
  On the live page: nothing to save at first; the photo after a capture; and, when the
  recording that followed the photo is finalized, the clip and not the photo.
\<close>

theorem saveMedia_offers_latest_artifact_witness:
  "mediaType example_live = None
   \<and> saveMedia example_platform example_timestamp
        (run example_platform example_live [ZoomInput ''2'']) = None
   \<and> saveMedia example_platform example_timestamp
        (run example_platform (step example_platform example_live (CaptureClick True example_data))
           [ZoomInput ''2''])
       = Some \<lparr>href = ''data:image/jpeg;base64,AA'',
               file_name = ''photo-2024-05-01T10-20-30-123Z.jpg''\<rparr>
   \<and> mediaType example_photo_then_clip = Some Photo
   \<and> saveMedia example_platform example_timestamp
        (run example_platform (step example_platform example_photo_then_clip RecorderStopped)
           [ZoomInput ''2''])
       = Some \<lparr>href = ''blob:video/mp4'',
               file_name = ''video-2024-05-01T10-20-30-123Z.mp4''\<rparr>"
proof -
  have quiet: "\<forall>e \<in> set [ZoomInput ''2'' :: real event]. \<not> produces_artifact e"
    by simp
  have ts: "timestamp example_timestamp = ''2024-05-01T10-20-30-123Z''"
    by (simp add: timestamp_def example_timestamp_def)
  have pre: "ctx example_live" "example_data \<noteq> []"
    "example_data \<noteq> location_href example_platform"
    "mediaRecorder example_photo_then_clip \<noteq> None"
    "createObjectURL example_platform
       (new_Blob (recordedChunks example_photo_then_clip) ''video/mp4'') = ''blob:video/mp4''"
    by (simp_all add: example_live_fields example_data_def example_platform_def
        example_photo_then_clip_fields new_Blob_def)
  from saveMedia_offers_latest_artifact
    [OF quiet, of example_live example_platform example_timestamp example_data]
    saveMedia_offers_latest_artifact
    [OF quiet, of example_photo_then_clip example_platform example_timestamp example_data]
  show ?thesis
    using pre by (simp add: ts example_live_fields example_photo_then_clip_fields example_data_def)
qed

text \<open>
  The claim as first stated names the file \<open>photo-<ISO timestamp>.jpg\<close>. The name
  offered is not the ISO timestamp between \<open>photo-\<close> and \<open>.jpg\<close>:
\<close>

theorem saveMedia_file_name_not_iso:
  "map_option file_name
     (saveMedia example_platform ''2024-05-01T10:20:30.123Z''
        (step example_platform example_live (CaptureClick True example_data)))
     = Some ''photo-2024-05-01T10-20-30-123Z.jpg''
   \<and> map_option file_name
     (saveMedia example_platform ''2024-05-01T10:20:30.123Z''
        (step example_platform example_live (CaptureClick True example_data)))
     \<noteq> Some (''photo-'' @ ''2024-05-01T10:20:30.123Z'' @ ''.jpg'')"
  by (simp add: saveMedia_def takePicture_def timestamp_def example_live_fields
      example_data_def example_platform_def Let_def)

subsection \<open>Switching devices\<close>

text \<open>
  Claim C2. \<open>switchCamera\<close> with more than one device, and \<open>handleCameraSelectChange\<close>
  always, set the zoom factor to 1 (and the slider to \<open>1\<close>, and the displayed text to
  the text of 1) before the request for the new device's stream is issued: in the state
  in which \<open>getUserMedia\<close> is called the zoom factor is 1 and the old stream is released,
  the request names the new device, and the zoom factor is still 1 when the handler has
  finished, whatever the platform answered.
\<close>

theorem switching_resets_zoom_before_acquiring:
  fixes s :: "('n::one) app"
  shows "(1 < length (videoDevices s) \<longrightarrow>
            (\<exists>s1 c. switchCamera_request P s = Some (s1, c)
               \<and> currentZoom s1 = 1 \<and> zoomSlider_value s1 = ''1''
               \<and> zoomValueDisplay s1 = toFixed1 P 1 \<and> currentStream s1 = None
               \<and> (deviceId (videoDevices s ! ((currentDeviceIndex s + 1) mod length (videoDevices s))) \<noteq> [] \<longrightarrow>
                    deviceId_exact c =
                      Some (deviceId (videoDevices s ! ((currentDeviceIndex s + 1) mod length (videoDevices s)))))
               \<and> switchCamera P a s = initCamera_resume a s1
               \<and> currentZoom (switchCamera P a s) = 1))
         \<and> (\<exists>s1 c. handleCameraSelectChange_request P s = (s1, c)
               \<and> currentZoom s1 = 1 \<and> zoomSlider_value s1 = ''1''
               \<and> zoomValueDisplay s1 = toFixed1 P 1 \<and> currentStream s1 = None
               \<and> (cameraSelect_value s \<noteq> [] \<longrightarrow> deviceId_exact c = Some (cameraSelect_value s))
               \<and> handleCameraSelectChange P a s = initCamera_resume a s1
               \<and> currentZoom (handleCameraSelectChange P a s) = 1)"
proof -
  have req: "currentZoom (fst (initCamera_request dev t)) = currentZoom t
      \<and> zoomSlider_value (fst (initCamera_request dev t)) = zoomSlider_value t
      \<and> zoomValueDisplay (fst (initCamera_request dev t)) = zoomValueDisplay t
      \<and> currentStream (fst (initCamera_request dev t)) = None" for dev and t :: "'n app"
    by (simp add: initCamera_request_def stopCurrentStream_def Let_def split: option.splits)
  have dev: "d \<noteq> [] \<Longrightarrow> deviceId_exact (snd (initCamera_request (Some d) t)) = Some d"
    for d and t :: "'n app"
    by (simp add: initCamera_request_def Let_def)
  have res: "currentZoom (initCamera_resume a t) = currentZoom t" for t :: "'n app"
    using initCamera_resume_untouched [of a t] by (simp add: untouched_by_acquire_def)
  show ?thesis
    by (simp add: switchCamera_def switchCamera_request_def handleCameraSelectChange_def
        handleCameraSelectChange_request_def Let_def req res dev split_beta prod_eq_iff)
qed


text \<open>On the page zoomed to 4, with the front camera active and a back camera present:\<close>

theorem switching_resets_zoom_before_acquiring_witness:
  "1 < length (videoDevices example_zoomed)
   \<and> currentZoom example_zoomed = 4
   \<and> currentZoom (fst (the (switchCamera_request example_platform example_zoomed))) = 1
   \<and> deviceId_exact (snd (the (switchCamera_request example_platform example_zoomed)))
       = Some ''back''
   \<and> currentZoom (switchCamera example_platform granted example_zoomed) = 1
   \<and> currentZoom (fst (handleCameraSelectChange_request example_platform example_zoomed)) = 1
   \<and> currentZoom (handleCameraSelectChange example_platform granted example_zoomed) = 1"
proof -
  have two: "1 < length (videoDevices example_zoomed)"
    and devs: "videoDevices example_zoomed = [front_camera, back_camera]"
    and idx: "currentDeviceIndex example_zoomed = 0"
    by (simp_all add: example_zoomed_def handleZoomChange_def Let_def example_live_fields)
  have next_dev: "deviceId (videoDevices example_zoomed !
      ((currentDeviceIndex example_zoomed + 1) mod length (videoDevices example_zoomed))) = ''back''"
    by (simp add: devs idx back_camera_def)
  from switching_resets_zoom_before_acquiring [of example_zoomed example_platform granted] two next_dev
  show ?thesis
    by (auto simp: example_zoomed_fields)
qed

subsection \<open>A rejected codec\<close>

text \<open>
  What \<open>startRecording\<close> does in any state when the constructor throws: it empties the
  chunk buffer, which it does before it constructs the recorder, and reports the error.
\<close>

lemma startRecording_rejected_effect:
  assumes "currentStream s = Some st" and "ctx s"
  shows "startRecording (Some e) s =
           s\<lparr>recordedChunks := [],
             errorMsg_text := Some (FormatNotSupported recording_mimeType),
             errorMsg_hidden := False,
             console := console s @ [RecorderException e,
                          Shown (FormatNotSupported recording_mimeType)]\<rparr>"
  using assms by (simp add: startRecording_def showError_def Let_def)

text \<open>
  Claim C4. On a platform that rejects the requested codec, in every state the page can
  reach after it is loaded: when \<open>startRecording\<close> gets as far as the constructor and the
  constructor throws, the error is reported (on the console and in the message region)
  and nothing else changes. The page was idle and stays idle, no recorder exists, and
  the chunk buffer is the same as before the call: it is empty, since only a recorder
  that was constructed can fill it.
\<close>

theorem startRecording_codec_rejected:
  fixes s0 :: "('n::{zero,numeral,minus,inverse}) app"
  assumes "initial s0" and "\<forall>ev \<in> set evs. codec_rejected ev"
    and "currentStream (run P s0 evs) = Some st" and "ctx (run P s0 evs)"
  shows "startRecording (Some e) (run P s0 evs) =
           (run P s0 evs)
             \<lparr>errorMsg_text := Some (FormatNotSupported recording_mimeType),
              errorMsg_hidden := False,
              console := console (run P s0 evs) @ [RecorderException e,
                           Shown (FormatNotSupported recording_mimeType)]\<rparr>
         \<and> \<not> isRecording (run P s0 evs)
         \<and> toggleRecording (Some e) (run P s0 evs) = startRecording (Some e) (run P s0 evs)
         \<and> \<not> isRecording (startRecording (Some e) (run P s0 evs))
         \<and> mediaRecorder (startRecording (Some e) (run P s0 evs)) = None
         \<and> recordedChunks (startRecording (Some e) (run P s0 evs))
             = recordedChunks (run P s0 evs)
         \<and> recording_view (startRecording (Some e) (run P s0 evs))
             = recording_view (run P s0 evs)
         \<and> controls_view (startRecording (Some e) (run P s0 evs))
             = controls_view (run P s0 evs)"
proof -
  define s where "s = run P s0 evs"
  from assms(1) have "recording_view_unused s0"
    by (simp add: initial_def recording_view_unused_def)
  from this assms(2) have "recording_view_unused s"
    unfolding s_def by (rule run_unused)
  then have idle: "\<not> isRecording s" and norec: "mediaRecorder s = None"
    and empty: "recordedChunks s = []"
    by (simp_all add: recording_view_unused_def)
  from assms(3,4) have stream: "currentStream s = Some st" and c: "ctx s"
    by (simp_all add: s_def)
  have same: "s\<lparr>recordedChunks := []\<rparr> = s"
    using empty by simp
  have eff: "startRecording (Some e) s =
      s\<lparr>errorMsg_text := Some (FormatNotSupported recording_mimeType),
        errorMsg_hidden := False,
        console := console s @ [RecorderException e,
                     Shown (FormatNotSupported recording_mimeType)]\<rparr>"
    by (simp only: startRecording_rejected_effect [OF stream c, of e] same)
  have "startRecording (Some e) s =
      s\<lparr>errorMsg_text := Some (FormatNotSupported recording_mimeType),
        errorMsg_hidden := False,
        console := console s @ [RecorderException e,
                     Shown (FormatNotSupported recording_mimeType)]\<rparr>
    \<and> \<not> isRecording s
    \<and> toggleRecording (Some e) s = startRecording (Some e) s
    \<and> \<not> isRecording (startRecording (Some e) s)
    \<and> mediaRecorder (startRecording (Some e) s) = None
    \<and> recordedChunks (startRecording (Some e) s) = recordedChunks s
    \<and> recording_view (startRecording (Some e) s) = recording_view s
    \<and> controls_view (startRecording (Some e) s) = controls_view s"
    using idle norec empty
    by (simp add: eff toggleRecording_def view_defs)
  then show ?thesis
    unfolding s_def .
qed

text \<open>
  On the live page, on a platform that refuses the codec: the first click on record is
  refused, and so is the second, which changes the console only.
\<close>

theorem startRecording_codec_rejected_witness:
  "initial example_page
   \<and> currentStream example_refused = Some front_stream \<and> ctx example_refused
   \<and> \<not> isRecording example_refused
   \<and> \<not> isRecording (toggleRecording (Some not_supported) example_refused)
   \<and> mediaRecorder (startRecording (Some not_supported) example_refused) = None
   \<and> recordedChunks (startRecording (Some not_supported) example_refused) = []
   \<and> recording_view (startRecording (Some not_supported) example_refused)
       = recording_view example_refused
   \<and> errorMsg_text (startRecording (Some not_supported) example_refused)
       = Some (FormatNotSupported ''video/webm; codecs=vp9,opus'')
   \<and> \<not> errorMsg_hidden (startRecording (Some not_supported) example_refused)"
proof -
  let ?evs = "[StartApp (Inr [front_camera, back_camera]) granted,
               VideoChanged False False 1280 720, Playing,
               RecordClick (Some not_supported)]"
  have eq: "example_refused = run example_platform example_page ?evs"
    by (simp add: example_refused_def example_live_def run_def)
  have refused: "currentStream example_refused = Some front_stream" "ctx example_refused"
    "recordedChunks example_refused = []" "mediaRecorder example_refused = None"
    "\<not> isRecording example_refused"
    by (simp_all add: example_refused_def toggleRecording_def startRecording_def
        showError_def example_live_fields Let_def)
  have all_rejected: "\<forall>ev \<in> set ?evs. codec_rejected ev"
    by (simp add: not_supported_def)
  from startRecording_codec_rejected
    [OF example_page_initial all_rejected, of example_platform front_stream not_supported]
    refused
  show ?thesis
    by (simp add: eq [symmetric] example_page_initial recording_mimeType_def view_defs)
qed

subsection \<open>Stopping with an empty buffer\<close>



end
